theory Spec2Isabelle
  imports Complex_Main
begin

section \<open>Python values, dictionaries and exceptions\<close>

text \<open>
  The readers return nested Python dictionaries and the orchestrator reads them with
  subscript expressions such as \<^verbatim>\<open>reports['regime']['output']['regime']\<close>.  A subscript
  on a dictionary that lacks the key raises \<^verbatim>\<open>KeyError\<close>; an exception is a value
  \<open>Inl e\<close> of the result type.  Python numbers (ints and floats) are modelled as exact
  rationals: the development idealises binary floating point to exact arithmetic.
\<close>

datatype error = KeyError string | TypeError | ZeroDivisionError | IndexError

datatype pyval =
    PNone
  | PBool bool
  | PNum rat
  | PStr string
  | PList "pyval list"
  | PDict "(string \<times> pyval) list"

fun getitem :: "pyval \<Rightarrow> string \<Rightarrow> error + pyval" where
  "getitem (PDict kvs) k = (case map_of kvs k of None \<Rightarrow> Inl (KeyError k) | Some v \<Rightarrow> Inr v)"
| "getitem _ k = Inl TypeError"

text \<open>Sequencing of steps that may raise: the first exception ends the computation.\<close>

definition bind_err :: "error + 'a \<Rightarrow> ('a \<Rightarrow> error + 'b) \<Rightarrow> error + 'b" where
  "bind_err m f = (case m of Inl e \<Rightarrow> Inl e | Inr x \<Rightarrow> f x)"

text \<open>\<open>getpath d [k1, k2, k3]\<close> is \<^verbatim>\<open>d[k1][k2][k3]\<close>, evaluated left to right.\<close>

fun getpath :: "pyval \<Rightarrow> string list \<Rightarrow> error + pyval" where
  "getpath v [] = Inr v"
| "getpath v (k # ks) = (case getitem v k of Inl e \<Rightarrow> Inl e | Inr w \<Rightarrow> getpath w ks)"

text \<open>Python's \<^verbatim>\<open>sub in s\<close> on strings.\<close>

fun str_in :: "string \<Rightarrow> string \<Rightarrow> bool" where
  "str_in sub [] = (sub = [])"
| "str_in sub (c # cs) = (take (length sub) (c # cs) = sub \<or> str_in sub cs)"

text \<open>
  Python's \<^verbatim>\<open>round(x, n)\<close>: the nearest multiple of \<open>10^-n\<close>, a tie going to the even
  neighbour (on the exact value, under the idealisation above).
\<close>

definition round_half_even :: "rat \<Rightarrow> int" where
  "round_half_even r =
     (let f = \<lfloor>r\<rfloor>; d = r - of_int f
      in if d < 1 / 2 then f
         else if 1 / 2 < d then f + 1
         else if even f then f else f + 1)"

definition py_round :: "rat \<Rightarrow> nat \<Rightarrow> rat" where
  "py_round x n = of_int (round_half_even (x * 10 ^ n)) / 10 ^ n"

section \<open>Bias matrix and forbidden gate (run\_all\_agents.py)\<close>

text \<open>
  \<open>calculate_bias\<close> has eight \<^verbatim>\<open>return\<close> statements.  \<open>calculate_bias_path\<close> is the
  function instrumented with the statement that returns; \<open>calculate_bias\<close> is its value.
\<close>

datatype bias_exit =
    Return_chaos
  | Return_volatility_extreme
  | Return_off_hours
  | Return_contradiction_up
  | Return_contradiction_down
  | Return_range_accelerating
  | Return_session_close
  | Return_base_bias

definition base_bias_of :: "string \<Rightarrow> string \<Rightarrow> string" where
  "base_bias_of regime momentum =
     (if regime = ''TREND_UP'' then
        (if momentum = ''ACCELERATING_LONG'' then ''BULLISH_BIAS''
         else if momentum = ''NEUTRAL'' then ''BULLISH_BIAS_WEAK''
         else if momentum = ''DECELERATING'' then ''NEUTRAL''
         else ''NEUTRAL'')
      else if regime = ''TREND_DOWN'' then
        (if momentum = ''ACCELERATING_SHORT'' then ''BEARISH_BIAS''
         else if momentum = ''NEUTRAL'' then ''BEARISH_BIAS_WEAK''
         else if momentum = ''DECELERATING'' then ''NEUTRAL''
         else ''NEUTRAL'')
      else if regime = ''RANGE'' then ''NEUTRAL''
      else ''NEUTRAL'')"

definition calculate_bias_path :: "string \<Rightarrow> string \<Rightarrow> string \<Rightarrow> string \<Rightarrow> bias_exit \<times> string" where
  "calculate_bias_path regime momentum volatility session =
     (if regime = ''CHAOS'' then (Return_chaos, ''DO_NOT_TRADE'')
      else if volatility = ''EXTREME'' then (Return_volatility_extreme, ''DO_NOT_TRADE'')
      else if session \<in> set [''OFF_HOURS''] then (Return_off_hours, ''DO_NOT_TRADE'')
      else if regime = ''TREND_UP'' \<and> momentum = ''ACCELERATING_SHORT''
        then (Return_contradiction_up, ''DO_NOT_TRADE'')
      else if regime = ''TREND_DOWN'' \<and> momentum = ''ACCELERATING_LONG''
        then (Return_contradiction_down, ''DO_NOT_TRADE'')
      else if regime = ''RANGE'' \<and> momentum \<in> set [''ACCELERATING_LONG'', ''ACCELERATING_SHORT'']
        then (Return_range_accelerating, ''DO_NOT_TRADE'')
      else
        let base_bias = base_bias_of regime momentum;
            base_bias =
              (if volatility = ''ELEVATED'' \<and> base_bias \<in> set [''BULLISH_BIAS'', ''BEARISH_BIAS'']
               then ''NEUTRAL'' else base_bias)
        in if session = ''SESSION_CLOSE_30MIN'' then (Return_session_close, ''DO_NOT_TRADE'')
           else if session = ''ASIA'' \<and> base_bias \<in> set [''BULLISH_BIAS'', ''BEARISH_BIAS'']
             then (Return_base_bias,
                   if \<not> str_in ''_WEAK'' base_bias then base_bias @ ''_WEAK'' else base_bias)
           else (Return_base_bias, base_bias))"

definition calculate_bias :: "string \<Rightarrow> string \<Rightarrow> string \<Rightarrow> string \<Rightarrow> string" where
  "calculate_bias regime momentum volatility session =
     snd (calculate_bias_path regime momentum volatility session)"

text \<open>
  \<open>check_synthesis_forbidden\<close> reads five fields, tests the veto conditions in a fixed
  order and returns at the first that holds; the momentum state is read only after the
  first five tests.  The result is the pair \<^verbatim>\<open>(is_forbidden, reason)\<close>, the reason
  \<^verbatim>\<open>None\<close> when nothing fires.
\<close>

definition spread_reason :: "pyval \<Rightarrow> string" where
  "spread_reason spread = ''SPREAD = '' @ (case spread of PStr s \<Rightarrow> s | _ \<Rightarrow> [])"

definition check_synthesis_forbidden :: "pyval \<Rightarrow> error + (bool \<times> string option)" where
  "check_synthesis_forbidden reports =
     bind_err (getpath reports [''regime'', ''output'', ''regime'']) (\<lambda>regime.
     bind_err (getpath reports [''volatility'', ''output'', ''state'']) (\<lambda>volatility.
     bind_err (getpath reports [''volatility'', ''output'', ''spread_status'']) (\<lambda>spread.
     bind_err (getpath reports [''session'', ''output'', ''active_session'']) (\<lambda>session.
     bind_err (getpath reports [''session'', ''output'', ''boundary_flag'']) (\<lambda>boundary.
       if regime = PStr ''CHAOS'' then Inr (True, Some ''REGIME = CHAOS'')
       else if volatility = PStr ''EXTREME'' then Inr (True, Some ''VOLATILITY = EXTREME'')
       else if spread = PStr ''WIDE'' \<or> spread = PStr ''EXTREME''
         then Inr (True, Some (spread_reason spread))
       else if session = PStr ''OFF_HOURS'' then Inr (True, Some ''SESSION = OFF_HOURS'')
       else if boundary = PStr ''SESSION_CLOSE_30MIN''
         then Inr (True, Some ''SESSION CLOSING IN 30 MIN'')
       else
         bind_err (getpath reports [''momentum'', ''output'', ''state'']) (\<lambda>momentum.
           if regime = PStr ''TREND_UP'' \<and> momentum = PStr ''ACCELERATING_SHORT''
             then Inr (True, Some ''CONTRADICTION: TREND_UP vs ACCELERATING_SHORT'')
           else if regime = PStr ''TREND_DOWN'' \<and> momentum = PStr ''ACCELERATING_LONG''
             then Inr (True, Some ''CONTRADICTION: TREND_DOWN vs ACCELERATING_LONG'')
           else Inr (False, None)))))))"

section \<open>SessionClock (agents/session\_clock.py)\<close>

definition is_within_session :: "int \<Rightarrow> int \<Rightarrow> int \<Rightarrow> bool" where
  "is_within_session current_hour start_hour end_hour =
     (if start_hour < end_hour then start_hour \<le> current_hour \<and> current_hour < end_hour
      else current_hour \<ge> start_hour \<or> current_hour < end_hour)"

definition determine_active_session :: "bool \<Rightarrow> bool \<Rightarrow> bool \<Rightarrow> string" where
  "determine_active_session asia london new_york =
     (if london \<and> new_york then ''OVERLAP_LONDON_NY''
      else if london then ''LONDON''
      else if new_york then ''NEW_YORK''
      else if asia then ''ASIA''
      else ''OFF_HOURS'')"

definition determine_boundary_flag :: "string \<Rightarrow> int \<Rightarrow> int \<Rightarrow> bool \<Rightarrow> bool \<Rightarrow> string" where
  "determine_boundary_flag session age_minutes minutes_to_close london_active new_york_active =
     (if london_active \<and> new_york_active then ''OVERLAP_ACTIVE''
      else if age_minutes \<le> 30 \<and> session \<noteq> ''OFF_HOURS'' then ''SESSION_OPEN_30MIN''
      else if minutes_to_close \<le> 30 \<and> session \<noteq> ''OFF_HOURS'' then ''SESSION_CLOSE_30MIN''
      else ''NONE'')"

section \<open>Candles\<close>

text \<open>
  A candle is the dictionary \<^verbatim>\<open>{open, high, low, close, volume, timestamp}\<close> of the data
  contract; the field \<^verbatim>\<open>open\<close> is named \<open>c_open\<close>.  Sequences are ordered oldest first.
\<close>

record candle =
  c_open :: rat
  high :: rat
  low :: rat
  close :: rat
  volume :: rat
  timestamp :: string

definition true_range :: "candle \<Rightarrow> candle \<Rightarrow> rat" where
  "true_range prev cur =
     max (high cur - low cur) (max \<bar>high cur - close prev\<bar> \<bar>low cur - close prev\<bar>)"

section \<open>RegimeClassifier (agents/regime\_classifier.py)\<close>

record regime_classifier =
  rc_agent_name :: string
  rc_agent_version :: string
  rc_instrument :: string
  lookback :: nat
  adx_threshold :: rat

definition RegimeClassifier_init :: regime_classifier where
  "RegimeClassifier_init =
     \<lparr>rc_agent_name = ''REGIME_CLASSIFIER'', rc_agent_version = ''2.0.0'',
      rc_instrument = ''XAU/USD'', lookback = 14, adx_threshold = 25\<rparr>"

text \<open>
  The first loop of \<open>calculate_adx\<close> walks the consecutive pairs of candles and appends
  to three lists at once; \<open>movement_rows\<close> is that loop, a row being
  \<open>(tr, plus_dm, minus_dm)\<close>, and the three lists are its columns.
\<close>

fun movement_rows :: "candle list \<Rightarrow> (rat \<times> rat \<times> rat) list" where
  "movement_rows (prev # cur # rest) =
     (let up_move = high cur - high prev;
          down_move = low prev - low cur;
          plus_dm = (if up_move > down_move \<and> up_move > 0 then up_move else 0);
          minus_dm = (if down_move > up_move \<and> down_move > 0 then down_move else 0)
      in (true_range prev cur, plus_dm, minus_dm)) # movement_rows (cur # rest)"
| "movement_rows _ = []"

definition tr_list :: "candle list \<Rightarrow> rat list" where
  "tr_list candles = map (\<lambda>(tr, plus_dm, minus_dm). tr) (movement_rows candles)"

definition plus_dm_list :: "candle list \<Rightarrow> rat list" where
  "plus_dm_list candles = map (\<lambda>(tr, plus_dm, minus_dm). plus_dm) (movement_rows candles)"

definition minus_dm_list :: "candle list \<Rightarrow> rat list" where
  "minus_dm_list candles = map (\<lambda>(tr, plus_dm, minus_dm). minus_dm) (movement_rows candles)"

text \<open>
  The second loop: Wilder's recurrence on the three smoothed sums, one entry
  \<open>(dx, plus_di, minus_di)\<close> appended to \<open>dx_list\<close> per step.  It runs over the rows
  from index \<open>period\<close> on, and only with \<open>period > 0\<close> (see \<open>calculate_adx\<close>).
\<close>

fun dx_loop :: "nat \<Rightarrow> rat \<times> rat \<times> rat \<Rightarrow> (rat \<times> rat \<times> rat) list
    \<Rightarrow> (rat \<times> rat \<times> rat) list \<Rightarrow> (rat \<times> rat \<times> rat) list" where
  "dx_loop period (smoothed_tr, smoothed_plus_dm, smoothed_minus_dm) dx_list [] = dx_list"
| "dx_loop period (smoothed_tr, smoothed_plus_dm, smoothed_minus_dm) dx_list
      ((tr, plus_dm, minus_dm) # rest) =
     (let smoothed_tr = smoothed_tr - smoothed_tr / of_nat period + tr;
          smoothed_plus_dm = smoothed_plus_dm - smoothed_plus_dm / of_nat period + plus_dm;
          smoothed_minus_dm = smoothed_minus_dm - smoothed_minus_dm / of_nat period + minus_dm;
          plus_di = (if smoothed_tr > 0 then 100 * smoothed_plus_dm / smoothed_tr else 0);
          minus_di = (if smoothed_tr > 0 then 100 * smoothed_minus_dm / smoothed_tr else 0);
          di_sum = plus_di + minus_di;
          dx = (if di_sum > 0 then 100 * \<bar>plus_di - minus_di\<bar> / di_sum else 0)
      in dx_loop period (smoothed_tr, smoothed_plus_dm, smoothed_minus_dm)
           (dx_list @ [(dx, plus_di, minus_di)]) rest)"

definition adx_dx_list :: "candle list \<Rightarrow> nat \<Rightarrow> (rat \<times> rat \<times> rat) list" where
  "adx_dx_list candles period =
     dx_loop period
       (sum_list (take period (tr_list candles)),
        sum_list (take period (plus_dm_list candles)),
        sum_list (take period (minus_dm_list candles)))
       [] (drop period (movement_rows candles))"

text \<open>
  \<open>calculate_adx\<close> returns \<open>(adx, plus_di, minus_di)\<close>.  The period is a natural number
  (the classifier passes its lookback, 14).  With \<open>period = 0\<close> and at least one candle the
  source divides by the period (in the loop, or in the final average) and raises
  \<^verbatim>\<open>ZeroDivisionError\<close>.
\<close>

definition calculate_adx :: "candle list \<Rightarrow> nat \<Rightarrow> error + (rat \<times> rat \<times> rat)" where
  "calculate_adx candles period =
     (if length candles < period + 1 then Inr (0, 0, 0)
      else if length (tr_list candles) < period then Inr (0, 0, 0)
      else if period = 0 then Inl ZeroDivisionError
      else
        let dx_list = adx_dx_list candles period
        in if length dx_list < period then
             (if dx_list \<noteq> [] then Inr (last dx_list) else Inr (0, 0, 0))
           else
             Inr (sum_list (map fst (drop (length dx_list - period) dx_list)) / of_nat period,
                  fst (snd (last dx_list)), snd (snd (last dx_list))))"

definition regime_of :: "rat \<Rightarrow> rat \<Rightarrow> rat \<Rightarrow> string" where
  "regime_of adx plus_di minus_di =
     (if adx < 20 then ''RANGE''
      else if adx \<ge> 20 \<and> adx < 25 then
        (if plus_di > minus_di then ''TREND_UP''
         else if minus_di > plus_di then ''TREND_DOWN''
         else ''RANGE'')
      else if adx \<ge> 25 \<and> adx < 50 then
        (if plus_di > minus_di then ''TREND_UP'' else ''TREND_DOWN'')
      else
        (if \<bar>plus_di - minus_di\<bar> < 10 then ''CHAOS''
         else if plus_di > minus_di then ''TREND_UP''
         else ''TREND_DOWN''))"

definition classify :: "regime_classifier \<Rightarrow> candle list \<Rightarrow> error + pyval" where
  "classify self candles =
     (if candles = [] \<or> length candles < lookback self + 1 then
        Inr (PDict
          [(''status'', PStr ''ERROR''),
           (''output'', PDict
             [(''regime'', PStr ''UNKNOWN''),
              (''duration_candles'', PNum 0),
              (''prior_regime'', PStr ''UNKNOWN''),
              (''internals'', PDict [(''adx'', PNum 0), (''plus_di'', PNum 0), (''minus_di'', PNum 0)])])])
      else
        bind_err (calculate_adx candles (lookback self)) (\<lambda>(adx, plus_di, minus_di).
          let regime = regime_of adx plus_di minus_di;
              duration = (if adx > 20 then min (of_int \<lfloor>adx / 5\<rfloor>) 20 else 1)
          in Inr (PDict
               [(''status'', PStr ''OK''),
                (''output'', PDict
                  [(''regime'', PStr regime),
                   (''duration_candles'', PNum duration),
                   (''prior_regime'', PStr ''RANGE''),
                   (''trend_strength'',
                      PStr (if adx \<ge> 25 then ''STRONG'' else if adx \<ge> 15 then ''WEAK'' else ''NONE'')),
                   (''internals'', PDict
                      [(''adx'', PNum (py_round adx 2)),
                       (''plus_di'', PNum (py_round plus_di 2)),
                       (''minus_di'', PNum (py_round minus_di 2))])])])))"

section \<open>VolatilityAssessor (agents/volatility\_assessor.py)\<close>

record volatility_assessor =
  va_agent_name :: string
  va_agent_version :: string
  va_instrument :: string
  va_pip_size :: rat
  low_threshold :: rat
  normal_threshold :: rat
  elevated_threshold :: rat
  spread_acceptable :: rat
  spread_wide :: rat

definition VolatilityAssessor_init :: volatility_assessor where
  "VolatilityAssessor_init =
     \<lparr>va_agent_name = ''VOLATILITY_ASSESSOR'', va_agent_version = ''2.0.0'',
      va_instrument = ''XAU/USD'', va_pip_size = 1 / 100,
      low_threshold = 100, normal_threshold = 300, elevated_threshold = 500,
      spread_acceptable = 1 / 2, spread_wide = 1\<rparr>"

fun atr_loop :: "nat \<Rightarrow> rat \<Rightarrow> rat list \<Rightarrow> rat" where
  "atr_loop period atr [] = atr"
| "atr_loop period atr (tr # rest) =
     atr_loop period ((atr * (of_nat period - 1) + tr) / of_nat period) rest"

definition calculate_atr :: "candle list \<Rightarrow> nat \<Rightarrow> error + rat" where
  "calculate_atr candles period =
     (if length candles < period + 1 then Inr 0
      else
        let trs = tr_list candles
        in if length trs < period then
             (if trs \<noteq> [] then Inr (sum_list trs / of_nat (length trs)) else Inr 0)
           else if period = 0 then Inl ZeroDivisionError
           else Inr (atr_loop period (sum_list (take period trs) / of_nat period) (drop period trs)))"

text \<open>
  \<^verbatim>\<open>candles[:-lookback]\<close> drops the last \<open>lookback\<close> candles, and is empty when
  \<open>lookback = 0\<close>.
\<close>

definition calculate_baseline_atr :: "candle list \<Rightarrow> nat \<Rightarrow> nat \<Rightarrow> error + rat" where
  "calculate_baseline_atr candles period lookback_n =
     (if length candles < lookback_n then calculate_atr candles period
      else
        let baseline_candles =
              (if length candles > lookback_n * 2
               then (if lookback_n = 0 then [] else take (length candles - lookback_n) candles)
               else take lookback_n candles)
        in calculate_atr baseline_candles period)"

definition assess :: "volatility_assessor \<Rightarrow> candle list \<Rightarrow> rat option \<Rightarrow> error + pyval" where
  "assess self candles spread =
     (if candles = [] \<or> length candles < 2 then
        Inr (PDict
          [(''status'', PStr ''ERROR''),
           (''output'', PDict
             [(''volatility_state'', PStr ''UNKNOWN''),
              (''atr_current_pips'', PNum 0),
              (''atr_baseline_pips'', PNum 0),
              (''spread_pips'', PNum 0),
              (''spread_status'', PStr ''UNKNOWN'')])])
      else
        bind_err (calculate_atr candles 14) (\<lambda>atr_current.
        if va_pip_size self = 0 then Inl ZeroDivisionError else
        let atr_current_pips = atr_current / va_pip_size self in
        bind_err (calculate_baseline_atr candles 14 50) (\<lambda>atr_baseline.
        let atr_baseline_pips = atr_baseline / va_pip_size self;
            volatility_state =
              (if atr_current_pips < low_threshold self then ''LOW''
               else if atr_current_pips < normal_threshold self then ''NORMAL''
               else if atr_current_pips < elevated_threshold self then ''ELEVATED''
               else ''EXTREME'');
            volatility_state =
              (if atr_baseline > 0 then
                 (let ratio = atr_current / atr_baseline;
                      volatility_state =
                        (if ratio > 2 \<and> volatility_state \<noteq> ''EXTREME'' then ''ELEVATED''
                         else volatility_state)
                  in if ratio > 3 then ''EXTREME'' else volatility_state)
               else volatility_state);
            spread_pips = (case spread of Some s \<Rightarrow> s | None \<Rightarrow> 3 / 10);
            spread_status =
              (if spread_pips \<le> spread_acceptable self then ''ACCEPTABLE''
               else if spread_pips \<le> spread_wide self then ''WIDE''
               else ''EXTREME'')
        in Inr (PDict
             [(''status'', PStr ''OK''),
              (''output'', PDict
                [(''volatility_state'', PStr volatility_state),
                 (''atr_current_pips'', PNum (py_round atr_current_pips 2)),
                 (''atr_baseline_pips'', PNum (py_round atr_baseline_pips 2)),
                 (''atr_ratio'',
                    PNum (if atr_baseline > 0 then py_round (atr_current / atr_baseline) 2 else 1)),
                 (''spread_pips'', PNum (py_round spread_pips 2)),
                 (''spread_status'', PStr spread_status),
                 (''internals'', PDict
                    [(''atr_raw'', PNum (py_round atr_current 4)),
                     (''atr_baseline_raw'', PNum (py_round atr_baseline 4)),
                     (''period'', PNum 14)])])]))))"

section \<open>MomentumReader (agents/momentum\_reader.py)\<close>

text \<open>
  \<^verbatim>\<open>prices[-period:]\<close> is the trailing \<open>period\<close> prices, and the whole list when
  \<open>period = 0\<close>; \<^verbatim>\<open>recent_prices[-1]\<close> raises \<^verbatim>\<open>IndexError\<close> on an empty list.
\<close>

definition calculate_velocity :: "rat list \<Rightarrow> nat \<Rightarrow> error + rat" where
  "calculate_velocity prices period =
     (if length prices < period then Inr 0
      else
        let recent_prices = (if period = 0 then prices else drop (length prices - period) prices)
        in if recent_prices = [] then Inl IndexError
           else
             let total_movement = last recent_prices - hd recent_prices
             in if period = 0 then Inl ZeroDivisionError
                else Inr (py_round (total_movement / of_nat period) 4))"

text \<open>A price series that starts at \<open>a\<close> and rises by \<open>k\<close> per bar, \<open>n\<close> bars long.\<close>

definition linear_series :: "rat \<Rightarrow> rat \<Rightarrow> nat \<Rightarrow> rat list" where
  "linear_series a k n = map (\<lambda>i. a + k * of_nat i) [0..<n]"

section \<open>StructureMapper (agents/structure\_mapper.py)\<close>


















section \<open>RiskCalculator (agents/risk\_calculator.py)\<close>








section \<open>Inputs and predicates used in the statements\<close>

text \<open>
  The smallest \<^verbatim>\<open>reports\<close> dictionary with every field that
  \<open>check_synthesis_forbidden\<close> reads, for given headline values.
\<close>

definition synthesis_reports ::
    "string \<Rightarrow> string \<Rightarrow> string \<Rightarrow> string \<Rightarrow> string \<Rightarrow> string \<Rightarrow> pyval" where
  "synthesis_reports regime momentum volatility spread session boundary =
     PDict
       [(''regime'', PDict [(''output'', PDict [(''regime'', PStr regime)])]),
        (''momentum'', PDict [(''output'', PDict [(''state'', PStr momentum)])]),
        (''volatility'', PDict [(''output'', PDict
            [(''state'', PStr volatility), (''spread_status'', PStr spread)])]),
        (''session'', PDict [(''output'', PDict
            [(''active_session'', PStr session), (''boundary_flag'', PStr boundary)])])]"

text \<open>A candle with the given high, low and close.\<close>

definition hlc :: "rat \<Rightarrow> rat \<Rightarrow> rat \<Rightarrow> candle" where
  "hlc h l c = \<lparr>c_open = c, high = h, low = l, close = c, volume = 0, timestamp = []\<rparr>"






section \<open>Basic facts\<close>

lemma round_half_even_of_int [simp]: "round_half_even (of_int n) = n"
  by (simp add: round_half_even_def)

lemma round_half_even_numeral [simp]:
  "round_half_even (numeral k) = numeral k"
  "round_half_even 0 = 0"
  "round_half_even 1 = 1"
  using round_half_even_of_int [of "numeral k"] round_half_even_of_int [of 0]
    round_half_even_of_int [of 1] by simp_all






lemma bind_err_simps [simp]:
  "bind_err (Inl e) f = Inl e"
  "bind_err (Inr x) f = f x"
  by (simp_all add: bind_err_def)

lemma calculate_adx_total:
  "0 < period \<Longrightarrow> \<exists>adx plus_di minus_di. calculate_adx candles period = Inr (adx, plus_di, minus_di)"
  by (cases "last (adx_dx_list candles period)") (simp add: calculate_adx_def Let_def)

lemma calculate_atr_total: "0 < period \<Longrightarrow> \<exists>atr. calculate_atr candles period = Inr atr"
  by (simp add: calculate_atr_def Let_def)

lemma calculate_baseline_atr_total:
  "0 < period \<Longrightarrow> \<exists>atr. calculate_baseline_atr candles period n = Inr atr"
  by (simp add: calculate_baseline_atr_def Let_def calculate_atr_total)

section \<open>The synthesis step on the readers' own reports\<close>

lemma classify_regime_key:
  "\<exists>report r. classify RegimeClassifier_init candles = Inr report
      \<and> getpath report [''output'', ''regime''] = Inr (PStr r)"
proof -
  obtain adx plus_di minus_di where
    "calculate_adx candles 14 = Inr (adx, plus_di, minus_di)"
    using calculate_adx_total [of 14 candles] by auto
  then show ?thesis
    by (simp add: classify_def RegimeClassifier_init_def Let_def)
qed

lemma assess_no_state_key:
  "\<exists>report. assess VolatilityAssessor_init candles spread = Inr report
      \<and> getpath report [''output'', ''state''] = Inl (KeyError ''state'')
      \<and> (\<exists>v. getpath report [''output'', ''volatility_state''] = Inr (PStr v))"
proof -
  obtain atr_current where c: "calculate_atr candles 14 = Inr atr_current"
    using calculate_atr_total [of 14 candles] by auto
  obtain atr_baseline where b: "calculate_baseline_atr candles 14 50 = Inr atr_baseline"
    using calculate_baseline_atr_total [of 14 candles 50] by auto
  show ?thesis
    by (simp add: assess_def VolatilityAssessor_init_def Let_def c b)
qed

text \<open>
  C1.  The claim is that the synthesis step completes on every set of reports the readers
  produce.  On the code it never does: for every candle sequence and spread, the regime
  and volatility readers return their reports, and \<open>check_synthesis_forbidden\<close> on a
  \<^verbatim>\<open>reports\<close> dictionary holding them (whatever the other five reports are) raises
  \<^verbatim>\<open>KeyError('state')\<close>, because the volatility report stores its tier under
  \<^verbatim>\<open>volatility_state\<close>.
\<close>

theorem synthesis_raises_on_reader_reports:
  "\<exists>regime_report volatility_report.
      classify RegimeClassifier_init candles = Inr regime_report
    \<and> assess VolatilityAssessor_init candles spread = Inr volatility_report
    \<and> check_synthesis_forbidden
        (PDict [(''regime'', regime_report), (''structure'', structure_rep),
                (''momentum'', momentum_rep), (''volatility'', volatility_report),
                (''session'', session_rep), (''risk'', risk_rep),
                (''recency'', recency_rep)])
       = Inl (KeyError ''state'')"
proof -
  obtain rr r where rr: "classify RegimeClassifier_init candles = Inr rr"
    "getpath rr [''output'', ''regime''] = Inr (PStr r)"
    using classify_regime_key by blast
  obtain vr where vr: "assess VolatilityAssessor_init candles spread = Inr vr"
    "getpath vr [''output'', ''state''] = Inl (KeyError ''state'')"
    using assess_no_state_key by blast
  have "check_synthesis_forbidden
        (PDict [(''regime'', rr), (''structure'', structure_rep),
                (''momentum'', momentum_rep), (''volatility'', vr),
                (''session'', session_rep), (''risk'', risk_rep),
                (''recency'', recency_rep)])
       = Inl (KeyError ''state'')"
    using rr(2) vr(2) by (simp add: check_synthesis_forbidden_def)
  with rr(1) vr(1) show ?thesis by blast
qed

section \<open>The forbidden gate and the bias matrix\<close>

text \<open>
  C2.  The claim is that every firing veto reason is reported.  With regime CHAOS and
  spread EXTREME together, \<open>check_synthesis_forbidden\<close> returns the single reason
  \<^verbatim>\<open>REGIME = CHAOS\<close>; the spread veto, which does fire when the regime is RANGE, is
  not reported.
\<close>

theorem check_synthesis_forbidden_first_reason_only:
  "check_synthesis_forbidden
       (synthesis_reports ''CHAOS'' ''NEUTRAL'' ''NORMAL'' ''EXTREME'' ''LONDON'' ''NONE'')
     = Inr (True, Some ''REGIME = CHAOS'')
   \<and> check_synthesis_forbidden
       (synthesis_reports ''RANGE'' ''NEUTRAL'' ''NORMAL'' ''EXTREME'' ''LONDON'' ''NONE'')
     = Inr (True, Some ''SPREAD = EXTREME'')"
  by (simp add: check_synthesis_forbidden_def synthesis_reports_def spread_reason_def)

text \<open>
  C3.  The claim is that \<open>calculate_bias\<close> returns one of BULLISH\_BIAS, BEARISH\_BIAS,
  NEUTRAL, DO\_NOT\_TRADE.  With regime TREND\_UP and momentum NEUTRAL (volatility NORMAL,
  session LONDON) it returns \<^verbatim>\<open>BULLISH_BIAS_WEAK\<close>, which is none of the four.
\<close>

theorem calculate_bias_weak_outside_enumeration:
  "calculate_bias ''TREND_UP'' ''NEUTRAL'' ''NORMAL'' ''LONDON'' = ''BULLISH_BIAS_WEAK''
   \<and> calculate_bias ''TREND_UP'' ''NEUTRAL'' ''NORMAL'' ''LONDON''
       \<notin> set [''BULLISH_BIAS'', ''BEARISH_BIAS'', ''NEUTRAL'', ''DO_NOT_TRADE'']"
  by (simp add: calculate_bias_def calculate_bias_path_def base_bias_of_def)

text \<open>
  C10.  For a session argument among the five values that \<open>determine_active_session\<close>
  returns, the comparison with \<^verbatim>\<open>SESSION_CLOSE_30MIN\<close> in \<open>calculate_bias\<close> is false
  and the \<^verbatim>\<open>return\<close> under it is never the one taken; \<open>determine_active_session\<close>
  returns only those five values; and the veto on session close comes from
  \<open>check_synthesis_forbidden\<close>, which reads the boundary flag: when no earlier veto fires
  and the flag is \<^verbatim>\<open>SESSION_CLOSE_30MIN\<close>, it forbids with the session-closing reason.
\<close>

theorem session_close_branch_unreachable:
  assumes "session \<in> set [''ASIA'', ''LONDON'', ''NEW_YORK'', ''OVERLAP_LONDON_NY'', ''OFF_HOURS'']"
  shows "session \<noteq> ''SESSION_CLOSE_30MIN''
    \<and> fst (calculate_bias_path regime momentum volatility session) \<noteq> Return_session_close
    \<and> determine_active_session asia london new_york
        \<in> set [''ASIA'', ''LONDON'', ''NEW_YORK'', ''OVERLAP_LONDON_NY'', ''OFF_HOURS'']
    \<and> (regime \<noteq> ''CHAOS'' \<and> volatility \<noteq> ''EXTREME'' \<and> spread \<notin> set [''WIDE'', ''EXTREME'']
         \<and> session \<noteq> ''OFF_HOURS''
       \<longrightarrow> check_synthesis_forbidden
             (synthesis_reports regime momentum volatility spread session ''SESSION_CLOSE_30MIN'')
           = Inr (True, Some ''SESSION CLOSING IN 30 MIN''))"
proof (intro conjI)
  show "session \<noteq> ''SESSION_CLOSE_30MIN''" using assms by auto
  then show "fst (calculate_bias_path regime momentum volatility session) \<noteq> Return_session_close"
    by (simp add: calculate_bias_path_def Let_def)
  show "determine_active_session asia london new_york
        \<in> set [''ASIA'', ''LONDON'', ''NEW_YORK'', ''OVERLAP_LONDON_NY'', ''OFF_HOURS'']"
    by (simp add: determine_active_session_def)
  show "regime \<noteq> ''CHAOS'' \<and> volatility \<noteq> ''EXTREME'' \<and> spread \<notin> set [''WIDE'', ''EXTREME'']
         \<and> session \<noteq> ''OFF_HOURS''
       \<longrightarrow> check_synthesis_forbidden
             (synthesis_reports regime momentum volatility spread session ''SESSION_CLOSE_30MIN'')
           = Inr (True, Some ''SESSION CLOSING IN 30 MIN'')"
    by (simp add: check_synthesis_forbidden_def synthesis_reports_def)
qed

theorem session_close_branch_unreachable_witness:
  "''LONDON'' \<in> set [''ASIA'', ''LONDON'', ''NEW_YORK'', ''OVERLAP_LONDON_NY'', ''OFF_HOURS'']
    \<and> fst (calculate_bias_path ''TREND_UP'' ''NEUTRAL'' ''NORMAL'' ''LONDON'') \<noteq> Return_session_close
    \<and> ''TREND_UP'' \<noteq> ''CHAOS'' \<and> ''NORMAL'' \<noteq> ''EXTREME''
    \<and> ''ACCEPTABLE'' \<notin> set [''WIDE'', ''EXTREME''] \<and> ''LONDON'' \<noteq> ''OFF_HOURS''
    \<and> check_synthesis_forbidden
         (synthesis_reports ''TREND_UP'' ''NEUTRAL'' ''NORMAL'' ''ACCEPTABLE'' ''LONDON''
            ''SESSION_CLOSE_30MIN'')
       = Inr (True, Some ''SESSION CLOSING IN 30 MIN'')"
proof -
  have h: "''LONDON'' \<in> set [''ASIA'', ''LONDON'', ''NEW_YORK'', ''OVERLAP_LONDON_NY'', ''OFF_HOURS'']"
    by simp
  show ?thesis
    using h session_close_branch_unreachable
      [OF h, of "''TREND_UP''" "''NEUTRAL''" "''NORMAL''" True True True "''ACCEPTABLE''"]
    by simp
qed

section \<open>RegimeClassifier: insufficient data and the bounds of ADX\<close>

text \<open>
  C8.  With fewer than \<open>lookback + 1\<close> candles (the empty sequence included),
  \<open>classify\<close> returns a report, raising nothing, with status ERROR, regime UNKNOWN and
  ADX 0; \<open>calculate_adx\<close> itself returns zeros on such a sequence.
\<close>

theorem classify_insufficient_data:
  "length candles < lookback self + 1 \<Longrightarrow>
     calculate_adx candles (lookback self) = Inr (0, 0, 0)
   \<and> (\<exists>report. classify self candles = Inr report
        \<and> getpath report [''status''] = Inr (PStr ''ERROR'')
        \<and> getpath report [''output'', ''regime''] = Inr (PStr ''UNKNOWN'')
        \<and> getpath report [''output'', ''internals'', ''adx''] = Inr (PNum 0))"
  by (simp add: classify_def calculate_adx_def)

theorem classify_insufficient_data_witness:
  "length [hlc 2651 2649 2650, hlc 2652 2650 2651] < lookback RegimeClassifier_init + 1
   \<and> calculate_adx [hlc 2651 2649 2650, hlc 2652 2650 2651] (lookback RegimeClassifier_init)
       = Inr (0, 0, 0)
   \<and> (\<exists>report. classify RegimeClassifier_init [hlc 2651 2649 2650, hlc 2652 2650 2651] = Inr report
        \<and> getpath report [''status''] = Inr (PStr ''ERROR'')
        \<and> getpath report [''output'', ''regime''] = Inr (PStr ''UNKNOWN'')
        \<and> getpath report [''output'', ''internals'', ''adx''] = Inr (PNum 0))"
proof -
  have h: "length [hlc 2651 2649 2650, hlc 2652 2650 2651] < lookback RegimeClassifier_init + 1"
    by (simp add: RegimeClassifier_init_def)
  show ?thesis using h classify_insufficient_data [OF h] by simp
qed













section \<open>MomentumReader: velocity of a linear series\<close>

lemma calculate_velocity_on_linear_series:
  assumes "1 \<le> p" "p \<le> n"
  shows "calculate_velocity (linear_series a k n) p
           = Inr (py_round (k * of_nat (p - 1) / of_nat p) 4)"
proof -
  let ?xs = "linear_series a k n"
  have len: "length ?xs = n" by (simp add: linear_series_def)
  let ?r = "drop (n - p) ?xs"
  have ne: "?r \<noteq> []" using assms len by simp
  have hd_r: "hd ?r = a + k * of_nat (n - p)"
    using assms by (simp add: hd_drop_conv_nth linear_series_def)
  have last_r: "last ?r = a + k * of_nat (n - 1)"
    using assms ne by (simp add: last_conv_nth linear_series_def)
  have "last ?r - hd ?r = k * of_nat (p - 1)"
    using assms by (simp add: hd_r last_r algebra_simps)
  then show ?thesis
    using assms ne by (simp add: calculate_velocity_def len Let_def)
qed

text \<open>
  C4.  The claim is that the velocity of a series of slope \<open>k\<close> is \<open>k\<close>.  The window of
  \<open>p\<close> prices spans \<open>p - 1\<close> bars and the movement is divided by \<open>p\<close>, so the code
  returns \<open>k (p - 1) / p\<close> (rounded): on 100 prices rising by 0.5 per bar from 2600, the
  velocity over 5 bars is 0.4, not 0.5.
\<close>

theorem calculate_velocity_slope_off_by_one:
  "calculate_velocity (linear_series 2600 (1 / 2) 100) 5 = Inr (2 / 5)
   \<and> calculate_velocity (linear_series 2600 (1 / 2) 100) 5 \<noteq> Inr (1 / 2)"
proof -
  have "calculate_velocity (linear_series 2600 (1 / 2) 100) 5
          = Inr (py_round ((1 / 2) * of_nat (5 - 1) / of_nat 5) 4)"
    by (rule calculate_velocity_on_linear_series) simp_all
  also have "py_round ((1 / 2) * of_nat (5 - 1) / of_nat 5) 4 = 2 / 5"
    by (simp add: py_round_def round_half_even_def)
  finally show ?thesis by simp
qed

section \<open>RiskCalculator: risk per trade and position size\<close>



section \<open>StructureMapper: clustering\<close>








section \<open>StructureMapper: the reported levels\<close>








end
